theory Spec2Isabelle
  imports Complex_Main "HOL-Library.Log_Nat" "HOL-Library.Char_ord" "HOL-Library.List_Lexorder"
begin

section \<open>The Steam library scanner of \<open>src/utils/steam-library.ts\<close>\<close>

text \<open>
  The module reads the host (platform name, registry, file system) and computes the list
  of installed games. The host is a record of functions; a call that can throw returns an
  \<open>option\<close>, \<open>None\<close> being the exception. JavaScript strings are modelled as
  \<^typ>\<open>string\<close>, that is as sequences of code units below 256. JavaScript numbers are
  doubles; the integers read by \<open>parseInt\<close> are modelled by \<^typ>\<open>nat\<close>, which is exact
  below \<open>2^53\<close>.
\<close>

subsection \<open>Characters and the regular expressions of the module\<close>

definition dq :: char where
  "dq = CHR 0x22"

definition is_space :: "char \<Rightarrow> bool" where
  \<comment> \<open>the class \<open>\s\<close>, also what \<open>trim\<close> removes: TAB, LF, VT, FF, CR, SP, NBSP\<close>
  "is_space c = (c \<in> set [CHR 0x09, CHR 0x0A, CHR 0x0B, CHR 0x0C, CHR 0x0D, CHR 0x20, CHR 0xA0])"

definition is_digit :: "char \<Rightarrow> bool" where
  \<comment> \<open>the class \<open>\d\<close>\<close>
  "is_digit c = (c \<in> set ''0123456789'')"

definition not_quote :: "char \<Rightarrow> bool" where
  \<comment> \<open>the class \<open>[^"]\<close>\<close>
  "not_quote c = (c \<noteq> dq)"

definition trim :: "string \<Rightarrow> string" where
  "trim s = rev (dropWhile is_space (rev (dropWhile is_space s)))"

fun startsWith :: "string \<Rightarrow> string \<Rightarrow> bool" where
  "startsWith s [] = True"
| "startsWith [] (p # ps) = False"
| "startsWith (c # cs) (p # ps) = (c = p \<and> startsWith cs ps)"

definition endsWith :: "string \<Rightarrow> string \<Rightarrow> bool" where
  "endsWith s p = startsWith (rev s) (rev p)"

definition digit_val :: "char \<Rightarrow> nat" where
  "digit_val c = of_char c - 48"

definition parseInt :: "string \<Rightarrow> nat" where
  \<comment> \<open>only ever applied to a non-empty run of decimal digits\<close>
  "parseInt ds = foldl (\<lambda>n c. 10 * n + digit_val c) 0 ds"

text \<open>
  A pattern is matched at one position by \<open>lit\<close> (a literal) and \<open>plus_cls\<close> (a greedy
  \<open>c+\<close> for a character class \<open>c\<close>). In each pattern of the module the literal after a
  \<open>c+\<close> starts with a character outside \<open>c\<close>, so the greedy run is the only run that
  can succeed and backtracking never finds another match. Both return the rest of the
  input after the match.
\<close>

fun lit :: "string \<Rightarrow> string \<Rightarrow> string option" where
  "lit [] s = Some s"
| "lit (p # ps) [] = None"
| "lit (p # ps) (c # cs) = (if p = c then lit ps cs else None)"

definition plus_cls :: "(char \<Rightarrow> bool) \<Rightarrow> string \<Rightarrow> (string \<times> string) option" where
  "plus_cls cls s =
     (if takeWhile cls s = [] then None else Some (takeWhile cls s, dropWhile cls s))"

definition field_at :: "string \<Rightarrow> (char \<Rightarrow> bool) \<Rightarrow> string \<Rightarrow> (string \<times> string) option" where
  \<comment> \<open>\<open>/"key"\s+"(cls+)"/\<close> at the start of \<open>s\<close>: the capture group and the rest\<close>
  "field_at key cls s =
     (case lit (dq # key @ [dq]) s of None \<Rightarrow> None | Some r1 \<Rightarrow>
     (case plus_cls is_space r1 of None \<Rightarrow> None | Some (ws, r2) \<Rightarrow>
     (case lit [dq] r2 of None \<Rightarrow> None | Some r3 \<Rightarrow>
     (case plus_cls cls r3 of None \<Rightarrow> None | Some (v, r4) \<Rightarrow>
     (case lit [dq] r4 of None \<Rightarrow> None | Some r5 \<Rightarrow> Some (v, r5))))))"

definition appid_at :: "string \<Rightarrow> (string \<times> string) option" where
  \<comment> \<open>\<open>/appmanifest_(\d+)\.acf/\<close> at the start of \<open>s\<close>\<close>
  "appid_at s =
     (case lit ''appmanifest_'' s of None \<Rightarrow> None | Some r1 \<Rightarrow>
     (case plus_cls is_digit r1 of None \<Rightarrow> None | Some (ds, r2) \<Rightarrow>
     (case lit ''.acf'' r2 of None \<Rightarrow> None | Some r3 \<Rightarrow> Some (ds, r3))))"

fun regex_search :: "(string \<Rightarrow> ('a \<times> string) option) \<Rightarrow> string \<Rightarrow> 'a option" where
  \<comment> \<open>\<open>s.match(re)\<close> without the \<open>g\<close> flag: the capture of the leftmost match\<close>
  "regex_search m [] = map_option fst (m [])"
| "regex_search m (c # cs) =
     (case m (c # cs) of Some r \<Rightarrow> Some (fst r) | None \<Rightarrow> regex_search m cs)"

function match_all :: "(string \<Rightarrow> ('a \<times> string) option) \<Rightarrow> string \<Rightarrow> string list" where
  \<comment> \<open>\<open>s.match(re)\<close> with the \<open>g\<close> flag: the matched substrings, left to right, the
      search resuming after each match (a match of these patterns is never empty)\<close>
  "match_all m s =
     (case m s of
        Some (v, rest) \<Rightarrow>
          if length rest < length s then take (length s - length rest) s # match_all m rest
          else []
      | None \<Rightarrow> (case s of [] \<Rightarrow> [] | c # cs \<Rightarrow> match_all m cs))"
  by pat_completeness auto
termination
  by (relation "measure (\<lambda>(m, s). length s)") auto

declare match_all.simps [simp del]

subsection \<open>The host and the data model\<close>

datatype error = Error string

definition PlatformUnsupported :: error where
  "PlatformUnsupported = Error ''Steam library browsing is only supported on Windows''"

definition NotFound :: error where
  "NotFound = Error ''Steam installation not found''"

record host =
  platform :: string
  execAsync :: "string \<Rightarrow> string option"
    \<comment> \<open>the standard output of the PowerShell query of \<open>InstallPath\<close> under a registry
        key; \<open>None\<close> when the command fails\<close>
  existsSync :: "string \<Rightarrow> bool"
  readFile :: "string \<Rightarrow> string option"
  readdir :: "string \<Rightarrow> string list option"
  join :: "string list \<Rightarrow> string"
    \<comment> \<open>\<open>path.join\<close> of Node\<close>
  localeCompare :: "string \<Rightarrow> string \<Rightarrow> int"
    \<comment> \<open>\<open>String.prototype.localeCompare\<close> in the host's locale\<close>

record SteamGame =
  appid :: nat
  name :: string
  installDir :: string
  sizeOnDisk :: nat
  lastUpdated :: "nat option"
  state :: "nat option"

record SteamLibraryInfo =
  games :: "SteamGame list"
  totalSize :: nat
  gameCount :: nat

subsection \<open>Path Resolver: \<open>getSteamPath\<close>\<close>

definition keyWow6432 :: string where
  "keyWow6432 =
     ''HKLM:'' @ [CHR 0x5C] @ ''SOFTWARE'' @ [CHR 0x5C] @ ''WOW6432Node'' @ [CHR 0x5C]
       @ ''Valve'' @ [CHR 0x5C] @ ''Steam''"

definition keyNative :: string where
  "keyNative = ''HKLM:'' @ [CHR 0x5C] @ ''SOFTWARE'' @ [CHR 0x5C] @ ''Valve'' @ [CHR 0x5C] @ ''Steam''"

definition registryPaths :: "string list" where
  "registryPaths = [keyWow6432, keyNative]"

fun tryRegistryPaths :: "host \<Rightarrow> string list \<Rightarrow> string option" where
  \<comment> \<open>the \<open>for\<close> loop over \<open>registryPaths\<close>; a failing command is caught and the loop
      continues; after the loop \<open>null\<close>\<close>
  "tryRegistryPaths h [] = None"
| "tryRegistryPaths h (path # paths) =
     (case execAsync h path of
        None \<Rightarrow> tryRegistryPaths h paths
      | Some stdout \<Rightarrow>
          (let steamPath = trim stdout in
           if steamPath \<noteq> [] \<and> existsSync h steamPath then Some steamPath
           else tryRegistryPaths h paths))"

definition getSteamPath :: "host \<Rightarrow> error + string option" where
  \<comment> \<open>the platform test throws before the \<open>try\<close>; nothing inside the outer \<open>try\<close>
      throws past the inner \<open>catch\<close>, so the outer \<open>catch\<close> has no branch\<close>
  "getSteamPath h =
     (if platform h \<noteq> ''win32'' then Inl PlatformUnsupported
      else Inr (tryRegistryPaths h registryPaths))"

subsection \<open>Library Enumerator: \<open>getSteamLibraryPaths\<close>\<close>

definition pathOfMatch :: "host \<Rightarrow> string \<Rightarrow> string option" where
  \<comment> \<open>the loop body: the capture of the match, kept when non-empty and existing\<close>
  "pathOfMatch h mtch =
     (case regex_search (field_at ''path'' not_quote) mtch of
        None \<Rightarrow> None
      | Some path \<Rightarrow> if path \<noteq> [] \<and> existsSync h path then Some path else None)"

definition getSteamLibraryPaths :: "host \<Rightarrow> string \<Rightarrow> string list" where
  "getSteamLibraryPaths h steamPath =
     (let libraryFoldersPath = join h [steamPath, ''steamapps'', ''libraryfolders.vdf''] in
      if \<not> existsSync h libraryFoldersPath then [steamPath]
      else
        (case readFile h libraryFoldersPath of
           None \<Rightarrow> [steamPath]
         | Some content \<Rightarrow>
             steamPath # List.map_filter (pathOfMatch h)
                           (match_all (field_at ''path'' not_quote) content)))"

subsection \<open>Manifest Scanner: \<open>parseAppManifests\<close>\<close>

definition parseManifest :: "host \<Rightarrow> string \<Rightarrow> string \<Rightarrow> string \<Rightarrow> SteamGame option" where
  \<comment> \<open>the body of the loop over \<open>manifestFiles\<close>: \<open>None\<close> is \<open>continue\<close> (also from the
      \<open>catch\<close> of a failed read) or a manifest without both required fields, \<open>Some\<close> is
      the game pushed\<close>
  "parseManifest h libraryPath steamappsPath manifestFile =
     (let manifestPath = join h [steamappsPath, manifestFile] in
      if \<not> existsSync h manifestPath then None
      else
        (case readFile h manifestPath of
           None \<Rightarrow> None
         | Some content \<Rightarrow>
             (case regex_search appid_at manifestFile of
                None \<Rightarrow> None
              | Some appidMatch \<Rightarrow>
                  (let appid = parseInt appidMatch in
                   if appid = 228980 \<or> appid = 7 then None
                   else
                     (let nameMatch = regex_search (field_at ''name'' not_quote) content;
                          installDirMatch = regex_search (field_at ''installdir'' not_quote) content;
                          sizeMatch = regex_search (field_at ''SizeOnDisk'' is_digit) content;
                          lastUpdatedMatch = regex_search (field_at ''LastUpdated'' is_digit) content;
                          stateMatch = regex_search (field_at ''StateFlags'' is_digit) content
                      in
                        (case (nameMatch, installDirMatch) of
                           (Some nm, Some dir) \<Rightarrow>
                             Some \<lparr>appid = appid,
                                   name = nm,
                                   installDir = join h [libraryPath, ''steamapps'', ''common'', dir],
                                   sizeOnDisk = (case sizeMatch of Some d \<Rightarrow> parseInt d | None \<Rightarrow> 0),
                                   lastUpdated = map_option parseInt lastUpdatedMatch,
                                   state = map_option parseInt stateMatch\<rparr>
                         | _ \<Rightarrow> None))))))"

fun scanManifests :: "host \<Rightarrow> string \<Rightarrow> string \<Rightarrow> string list \<Rightarrow> SteamGame list" where
  "scanManifests h libraryPath steamappsPath [] = []"
| "scanManifests h libraryPath steamappsPath (manifestFile # files) =
     (case parseManifest h libraryPath steamappsPath manifestFile of
        None \<Rightarrow> scanManifests h libraryPath steamappsPath files
      | Some game \<Rightarrow> game # scanManifests h libraryPath steamappsPath files)"

definition parseAppManifests :: "host \<Rightarrow> string \<Rightarrow> SteamGame list" where
  "parseAppManifests h libraryPath =
     (let steamappsPath = join h [libraryPath, ''steamapps''] in
      if \<not> existsSync h steamappsPath then []
      else
        (case readdir h steamappsPath of
           None \<Rightarrow> []
         | Some files \<Rightarrow>
             (let manifestFiles =
                    filter (\<lambda>file. startsWith file ''appmanifest_'' \<and> endsWith file ''.acf'') files
              in scanManifests h libraryPath steamappsPath manifestFiles)))"

subsection \<open>Aggregator: \<open>getInstalledSteamGames\<close>\<close>

fun findIndex :: "('a \<Rightarrow> bool) \<Rightarrow> 'a list \<Rightarrow> int" where
  "findIndex P [] = - 1"
| "findIndex P (x # xs) =
     (if P x then 0 else (let r = findIndex P xs in if r < 0 then - 1 else r + 1))"

definition filterIndexed :: "('a \<Rightarrow> nat \<Rightarrow> 'a list \<Rightarrow> bool) \<Rightarrow> 'a list \<Rightarrow> 'a list" where
  \<comment> \<open>\<open>self.filter((x, index, self) => ...)\<close>\<close>
  "filterIndexed P self =
     map fst (filter (\<lambda>(x, index). P x index self) (zip self [0..<length self]))"

definition removeDuplicates :: "SteamGame list \<Rightarrow> SteamGame list" where
  "removeDuplicates allGames =
     filterIndexed
       (\<lambda>game index self. int index = findIndex (\<lambda>g. appid g = appid game) self) allGames"

text \<open>
  \<open>Array.prototype.sort\<close> is stable; for a comparator that is a total preorder every
  stable sort returns the same array, here computed by insertion.
\<close>

fun insertBy :: "('a \<Rightarrow> 'a \<Rightarrow> int) \<Rightarrow> 'a \<Rightarrow> 'a list \<Rightarrow> 'a list" where
  "insertBy cmp x [] = [x]"
| "insertBy cmp x (y # ys) = (if cmp x y \<le> 0 then x # y # ys else y # insertBy cmp x ys)"

definition sortBy :: "('a \<Rightarrow> 'a \<Rightarrow> int) \<Rightarrow> 'a list \<Rightarrow> 'a list" where
  "sortBy cmp xs = foldr (insertBy cmp) xs []"

definition getInstalledSteamGames :: "host \<Rightarrow> error + SteamLibraryInfo" where
  \<comment> \<open>the outer \<open>catch\<close> logs and rethrows\<close>
  "getInstalledSteamGames h =
     (case getSteamPath h of
        Inl e \<Rightarrow> Inl e
      | Inr None \<Rightarrow> Inl NotFound
      | Inr (Some steamPath) \<Rightarrow>
          if steamPath = [] then Inl NotFound
          else
            (let libraryPaths = getSteamLibraryPaths h steamPath;
                 allGames = concat (map (parseAppManifests h) libraryPaths);
                 uniqueGames =
                   sortBy (\<lambda>a b. localeCompare h (name a) (name b)) (removeDuplicates allGames);
                 totalSize = foldl (\<lambda>sum game. sum + sizeOnDisk game) 0 uniqueGames
             in Inr \<lparr>games = uniqueGames, totalSize = totalSize,
                     gameCount = length uniqueGames\<rparr>))"

subsection \<open>Presentation Formatters\<close>

text \<open>
  The formatters compute on doubles. The model computes the same expressions exactly, on
  integers: \<open>unitIndex\<close> is \<open>Math.floor(Math.log(bytes) / Math.log(1024))\<close>,
  \<open>roundedHundredths\<close> is \<open>Math.round((bytes / Math.pow(1024, i)) * 100)\<close> and
  \<open>daysSince\<close> is \<open>Math.floor((Date.now() / 1000 - timestamp) / (24 * 60 * 60))\<close>, the
  clock \<open>Date.now()\<close> (in milliseconds) being a parameter. The lemmas \<open>unitIndex_log\<close>,
  \<open>roundedHundredths_floor\<close> and \<open>daysSince_floor\<close> relate them to the real-valued
  expressions of the source. A double quotient can differ from the exact one within
  rounding distance of a unit boundary.
\<close>

definition digitChar :: "nat \<Rightarrow> char" where
  "digitChar d = ''0123456789'' ! d"

function decimal :: "nat \<Rightarrow> string" where
  \<comment> \<open>the decimal digits of a non-negative integer\<close>
  "decimal n = (if n < 10 then [digitChar n] else decimal (n div 10) @ [digitChar (n mod 10)])"
  by pat_completeness auto
termination
  by (relation "measure id") auto

declare decimal.simps [simp del]

definition numberToString :: "int \<Rightarrow> string" where
  \<comment> \<open>an integer in a template literal\<close>
  "numberToString i = (if i < 0 then ''-'' @ decimal (nat (- i)) else decimal (nat i))"




definition roundedHundredths :: "nat \<Rightarrow> nat \<Rightarrow> nat" where
  "roundedHundredths bytes i = (200 * bytes + 1024 ^ i) div (2 * 1024 ^ i)"


definition daysSince :: "int \<Rightarrow> int \<Rightarrow> int" where
  "daysSince nowMs timestamp = (nowMs - 1000 * timestamp) div 86400000"

definition formatLastUpdated :: "int \<Rightarrow> int \<Rightarrow> string" where
  "formatLastUpdated nowMs timestamp =
     (let days = daysSince nowMs timestamp in
      if days = 0 then ''Today''
      else if days = 1 then ''Yesterday''
      else if days < 7 then numberToString days @ '' days ago''
      else if days < 30 then numberToString (days div 7) @ '' weeks ago''
      else numberToString (days div 30) @ '' months ago'')"

subsection \<open>Notions used to state the properties\<close>

definition first_occurrence :: "string \<Rightarrow> (char \<Rightarrow> bool) \<Rightarrow> string \<Rightarrow> string option" where
  \<comment> \<open>the value of the field pattern at the least position of the text where the pattern
      occurs, \<open>None\<close> when it occurs nowhere\<close>
  "first_occurrence key cls s =
     (case find (\<lambda>i. field_at key cls (drop i s) \<noteq> None) [0..<Suc (length s)] of
        None \<Rightarrow> None
      | Some i \<Rightarrow> map_option fst (field_at key cls (drop i s)))"

definition resolves :: "host \<Rightarrow> string \<Rightarrow> bool" where
  \<comment> \<open>a registry key resolves: the query succeeds and its trimmed output is a non-empty
      path that exists on disk\<close>
  "resolves h key =
     (case execAsync h key of
        None \<Rightarrow> False
      | Some stdout \<Rightarrow> trim stdout \<noteq> [] \<and> existsSync h (trim stdout))"


definition reserved :: "nat \<Rightarrow> bool" where
  "reserved n = (n = 228980 \<or> n = 7)"

subsection \<open>A concrete host\<close>

text \<open>
  A Windows host with the base installation \<open>C:/Steam\<close> and a second library
  \<open>D:/Games\<close>. The first registry key fails, the second answers with a trailing line
  break. Dota 2 (570) is installed in both libraries; the manifests of the reserved
  identifiers 7 and 228980 are complete; manifest 440 lacks \<open>installdir\<close>; manifest 730
  cannot be read; manifest 10 has two \<open>name\<close> pairs and a non-numeric \<open>SizeOnDisk\<close>.
  Names are compared ignoring case.
\<close>

fun joinSlash :: "string list \<Rightarrow> string" where
  "joinSlash [] = ''.''"
| "joinSlash [x] = x"
| "joinSlash (x # y # zs) = x @ ''/'' @ joinSlash (y # zs)"

definition toLower :: "char \<Rightarrow> char" where
  "toLower c =
     (case map_of (zip ''ABCDEFGHIJKLMNOPQRSTUVWXYZ'' ''abcdefghijklmnopqrstuvwxyz'') c of
        Some l \<Rightarrow> l
      | None \<Rightarrow> c)"

definition compareIgnoringCase :: "string \<Rightarrow> string \<Rightarrow> int" where
  "compareIgnoringCase a b =
     (let x = map toLower a; y = map toLower b in
      if x < y then - 1 else if x = y then 0 else 1)"

definition pair :: "string \<Rightarrow> string \<Rightarrow> string" where
  \<comment> \<open>one line \<open>"key" "value"\<close> of a descriptor\<close>
  "pair key val = [CHR 0x09, dq] @ key @ [dq, CHR 0x09, CHR 0x09, dq] @ val @ [dq, CHR 0x0A]"

definition manifestDota :: string where
  "manifestDota =
     pair ''appid'' ''570'' @ pair ''name'' ''Dota 2'' @ pair ''StateFlags'' ''4'' @
     pair ''installdir'' ''dota 2 beta'' @ pair ''LastUpdated'' ''1700000000'' @
     pair ''SizeOnDisk'' ''12000000000''"

definition manifestClient :: string where
  "manifestClient =
     pair ''name'' ''Steamworks Common Redistributables'' @
     pair ''installdir'' ''Steamworks Shared'' @ pair ''SizeOnDisk'' ''100''"

definition manifestNoDir :: string where
  "manifestNoDir =
     pair ''name'' ''Team Fortress 2'' @ pair ''SizeOnDisk'' ''500'' @
     pair ''LastUpdated'' ''1600000000'' @ pair ''StateFlags'' ''4''"

definition manifestTwoNames :: string where
  "manifestTwoNames =
     pair ''name'' ''counter-Strike'' @ pair ''installdir'' ''cs'' @
     pair ''SizeOnDisk'' ''12abc'' @ pair ''name'' ''Second Name'' @
     pair ''installdir'' ''second dir''"

definition libraryFolders :: string where
  "libraryFolders = pair ''path'' ''C:/Missing'' @ pair ''path'' ''D:/Games''"

definition exampleStdout :: string where
  "exampleStdout = ''C:/Steam'' @ [CHR 0x0D, CHR 0x0A]"

definition exampleRegistry :: "string \<Rightarrow> string option" where
  "exampleRegistry key = (if key = keyNative then Some exampleStdout else None)"

definition examplePaths :: "string list" where
  "examplePaths =
     [''C:/Steam'', ''C:/Steam/steamapps'', ''C:/Steam/steamapps/libraryfolders.vdf'',
      ''C:/Steam/steamapps/appmanifest_570.acf'', ''C:/Steam/steamapps/appmanifest_7.acf'',
      ''C:/Steam/steamapps/appmanifest_440.acf'', ''C:/Steam/steamapps/appmanifest_730.acf'',
      ''D:/Games'', ''D:/Games/steamapps'', ''D:/Games/steamapps/appmanifest_570.acf'',
      ''D:/Games/steamapps/appmanifest_10.acf'', ''D:/Games/steamapps/appmanifest_228980.acf'']"

definition exampleFiles :: "(string \<times> string) list" where
  "exampleFiles =
     [(''C:/Steam/steamapps/libraryfolders.vdf'', libraryFolders),
      (''C:/Steam/steamapps/appmanifest_570.acf'', manifestDota),
      (''C:/Steam/steamapps/appmanifest_7.acf'', manifestClient),
      (''C:/Steam/steamapps/appmanifest_440.acf'', manifestNoDir),
      (''D:/Games/steamapps/appmanifest_570.acf'', manifestDota),
      (''D:/Games/steamapps/appmanifest_10.acf'', manifestTwoNames),
      (''D:/Games/steamapps/appmanifest_228980.acf'', manifestClient)]"

definition exampleDirs :: "(string \<times> string list) list" where
  "exampleDirs =
     [(''C:/Steam/steamapps'',
         [''libraryfolders.vdf'', ''appmanifest_570.acf'', ''appmanifest_7.acf'',
          ''appmanifest_440.acf'', ''appmanifest_730.acf'']),
      (''D:/Games/steamapps'',
         [''appmanifest_570.acf'', ''appmanifest_10.acf'', ''appmanifest_228980.acf''])]"

definition exampleHost :: host where
  "exampleHost =
     \<lparr>platform = ''win32'',
      execAsync = exampleRegistry,
      existsSync = (\<lambda>p. p \<in> set examplePaths),
      readFile = map_of exampleFiles,
      readdir = map_of exampleDirs,
      join = joinSlash,
      localeCompare = compareIgnoringCase\<rparr>"

definition dotaExtra :: SteamGame where
  "dotaExtra =
     \<lparr>appid = 570, name = ''Dota 2'', installDir = ''D:/Games/steamapps/common/dota 2 beta'',
      sizeOnDisk = 12000000000, lastUpdated = Some 1700000000, state = Some 4\<rparr>"

definition dotaBase :: SteamGame where
  "dotaBase =
     \<lparr>appid = 570, name = ''Dota 2'', installDir = ''C:/Steam/steamapps/common/dota 2 beta'',
      sizeOnDisk = 12000000000, lastUpdated = Some 1700000000, state = Some 4\<rparr>"

definition counterStrike :: SteamGame where
  "counterStrike =
     \<lparr>appid = 10, name = ''counter-Strike'', installDir = ''D:/Games/steamapps/common/cs'',
      sizeOnDisk = 0, lastUpdated = None, state = None\<rparr>"


section \<open>Properties of the formatters\<close>

lemma daysSince_floor:
  "\<lfloor>(real_of_int nowMs / 1000 - real_of_int timestamp) / (24 * 60 * 60)\<rfloor>
     = daysSince nowMs timestamp"
proof -
  have "(real_of_int nowMs / 1000 - real_of_int timestamp) / (24 * 60 * 60)
      = real_of_int (nowMs - 1000 * timestamp) / real_of_int 86400000"
    by (simp add: field_simps)
  then show ?thesis
    unfolding daysSince_def by (simp only: floor_divide_of_int_eq)
qed


lemma roundedHundredths_floor:
  "\<lfloor>real bytes / 1024 ^ i * 100 + 1 / 2\<rfloor> = int (roundedHundredths bytes i)"
proof -
  have "real bytes / 1024 ^ i * 100 + 1 / 2
      = real (200 * bytes + 1024 ^ i) / real (2 * 1024 ^ i)"
    by (simp add: field_simps)
  then show ?thesis
    unfolding roundedHundredths_def by (simp only: floor_divide_of_nat_eq)
qed





lemma numberToString_1: "numberToString 1 = ''1''"
  by (simp add: numberToString_def decimal.simps [of "Suc 0"] digitChar_def)

text \<open>
  C9. For a timestamp not later than the clock, with \<open>d\<close> the whole-day difference
  (the floor of the difference in seconds divided by 86400), \<open>formatLastUpdated\<close> is
  \<open>Today\<close> for \<open>d = 0\<close>, \<open>Yesterday\<close> for \<open>d = 1\<close>, \<open>d days ago\<close> for \<open>d\<close> from 2 to 6,
  \<open>N weeks ago\<close> with \<open>N = d div 7\<close> for \<open>d\<close> from 7 to 29 and \<open>N months ago\<close> with
  \<open>N = d div 30\<close> from 30 on; 40 days give \<open>1 months ago\<close>.
\<close>

theorem formatLastUpdated_by_days:
  assumes "1000 * timestamp \<le> nowMs"
      and "d = \<lfloor>(real_of_int nowMs / 1000 - real_of_int timestamp) / (24 * 60 * 60)\<rfloor>"
  shows "0 \<le> d
       \<and> (d = 0 \<longrightarrow> formatLastUpdated nowMs timestamp = ''Today'')
       \<and> (d = 1 \<longrightarrow> formatLastUpdated nowMs timestamp = ''Yesterday'')
       \<and> (2 \<le> d \<and> d \<le> 6 \<longrightarrow>
            formatLastUpdated nowMs timestamp = numberToString d @ '' days ago'')
       \<and> (7 \<le> d \<and> d \<le> 29 \<longrightarrow>
            formatLastUpdated nowMs timestamp = numberToString (d div 7) @ '' weeks ago'')
       \<and> (30 \<le> d \<longrightarrow>
            formatLastUpdated nowMs timestamp = numberToString (d div 30) @ '' months ago'')
       \<and> (d = 40 \<longrightarrow> formatLastUpdated nowMs timestamp = ''1 months ago'')"
proof -
  have d: "d = daysSince nowMs timestamp"
    using assms(2) by (simp only: daysSince_floor)
  have "0 \<le> (nowMs - 1000 * timestamp) div 86400000"
    using assms(1) by (simp add: pos_imp_zdiv_nonneg_iff)
  then have nonneg: "0 \<le> d"
    by (simp add: d daysSince_def)
  show ?thesis
    using nonneg by (auto simp: formatLastUpdated_def d [symmetric] numberToString_1)
qed

theorem formatLastUpdated_by_days_witness:
  "(1000::int) * 1696544000 \<le> 1700000000123
   \<and> (40::int) = \<lfloor>(real_of_int 1700000000123 / 1000 - real_of_int 1696544000) / (24 * 60 * 60)\<rfloor>
   \<and> formatLastUpdated 1700000000123 1696544000 = ''1 months ago''"
proof -
  have a: "(1000::int) * 1696544000 \<le> 1700000000123"
    by simp
  have b: "(40::int) = \<lfloor>(real_of_int 1700000000123 / 1000 - real_of_int 1696544000) / (24 * 60 * 60)\<rfloor>"
    by (simp add: daysSince_floor daysSince_def)
  show ?thesis
    using a b formatLastUpdated_by_days [OF a b] by blast
qed





section \<open>The patterns\<close>

lemma lit_iff: "lit p s = Some r \<longleftrightarrow> s = p @ r"
proof (induction p s rule: lit.induct)
  case (1 s)
  then show ?case by auto
next
  case (2 p ps)
  then show ?case by simp
next
  case (3 p ps c cs)
  then show ?case by auto
qed

lemma lit_same: "lit p (p @ r) = Some r"
  by (simp add: lit_iff)

lemma lit_append_pat:
  "lit (p @ q) s = (case lit p s of None \<Rightarrow> None | Some r \<Rightarrow> lit q r)"
  by (induction p s rule: lit.induct) simp_all

lemma find_upt_Some_iff:
  "find P [0..<n] = Some i \<longleftrightarrow> i < n \<and> P i \<and> (\<forall>j < i. \<not> P j)"
  unfolding find_Some_iff
proof
  assume "\<exists>k < length [0..<n]. P ([0..<n] ! k) \<and> i = [0..<n] ! k \<and> (\<forall>j < k. \<not> P ([0..<n] ! j))"
  then show "i < n \<and> P i \<and> (\<forall>j < i. \<not> P j)"
    by (elim exE conjE) simp
next
  assume "i < n \<and> P i \<and> (\<forall>j < i. \<not> P j)"
  then show "\<exists>k < length [0..<n]. P ([0..<n] ! k) \<and> i = [0..<n] ! k \<and> (\<forall>j < k. \<not> P ([0..<n] ! j))"
    by (intro exI [of _ i]) simp
qed

lemma find_upt_None_iff: "find P [0..<n] = None \<longleftrightarrow> (\<forall>i < n. \<not> P i)"
  by (simp add: find_None_iff)


lemma is_space_dq: "\<not> is_space dq"
  by (simp add: is_space_def dq_def)

lemma is_digit_dq: "\<not> is_digit dq"
  by (simp add: is_digit_def dq_def)



text \<open>A pair whose value is not a run of digits is no occurrence of a numeric pattern.\<close>

lemma field_at_non_numeric:
  assumes ws: "\<forall>c \<in> set ws. is_space c"
      and v: "dq \<notin> set v" "\<exists>c \<in> set v. \<not> is_digit c"
  shows "field_at key is_digit (dq # key @ [dq] @ ws @ [dq] @ v @ [dq] @ post) = None"
proof -
  let ?r1 = "ws @ dq # (v @ dq # post)"
  have 1: "lit (dq # key @ [dq]) (dq # key @ [dq] @ ws @ [dq] @ v @ [dq] @ post) = Some ?r1"
    by (simp add: lit_iff)
  have 3: "lit [dq] (dq # (v @ dq # post)) = Some (v @ dq # post)"
    by simp
  have 2: "takeWhile is_space ?r1 = ws" "dropWhile is_space ?r1 = dq # (v @ dq # post)"
    using ws is_space_dq by simp_all
  from v(2) obtain c where c: "c \<in> set v" "\<not> is_digit c"
    by blast
  have 4: "takeWhile is_digit (v @ dq # post) = takeWhile is_digit v"
          "dropWhile is_digit (v @ dq # post) = dropWhile is_digit v @ dq # post"
    using c by simp_all
  have "dropWhile is_digit v \<noteq> []"
    using c by auto
  then obtain x xs where x: "dropWhile is_digit v = x # xs"
    by (cases "dropWhile is_digit v") auto
  then have "x \<in> set v"
    by (metis list.set_intros(1) set_dropWhileD)
  with v(1) have "x \<noteq> dq"
    by blast
  then have 5: "lit [dq] (dropWhile is_digit v @ dq # post) = None"
    by (simp add: x)
  show ?thesis
    by (simp add: field_at_def lit_append_pat lit_same plus_cls_def 2 4 5)
qed

lemma find_map_index: "find P (map f xs) = map_option f (find (\<lambda>x. P (f x)) xs)"
  by (induction xs) simp_all

lemma regex_search_find:
  "regex_search m s =
     (case find (\<lambda>i. m (drop i s) \<noteq> None) [0..<Suc (length s)] of
        None \<Rightarrow> None
      | Some i \<Rightarrow> map_option fst (m (drop i s)))"
proof (induction s)
  case Nil
  then show ?case by (cases "m []") auto
next
  case (Cons c cs)
  define xs where "xs = [0..<Suc (length cs)]"
  have upt: "[0..<Suc (length (c # cs))] = 0 # map Suc xs"
    unfolding xs_def by (metis length_Cons map_Suc_upt upt_conv_Cons zero_less_Suc)
  have IH: "regex_search m cs =
     (case find (\<lambda>i. m (drop i cs) \<noteq> None) xs of
        None \<Rightarrow> None
      | Some i \<Rightarrow> map_option fst (m (drop i cs)))"
    unfolding xs_def by (rule Cons.IH)
  show ?case
  proof (cases "m (c # cs)")
    case None
    then have "find (\<lambda>i. m (drop i (c # cs)) \<noteq> None) (0 # map Suc xs)
             = map_option Suc (find (\<lambda>i. m (drop i cs) \<noteq> None) xs)"
      by (simp add: find_map_index)
    with None IH show ?thesis
      unfolding upt by (cases "find (\<lambda>i. m (drop i cs) \<noteq> None) xs") simp_all
  next
    case (Some r)
    then show ?thesis unfolding upt by simp
  qed
qed

text \<open>The search of the source returns the first occurrence of the pattern.\<close>

lemma regex_search_first:
  "regex_search (field_at key cls) s = first_occurrence key cls s"
  by (simp add: first_occurrence_def regex_search_find)

lemma first_occurrence_Some_iff:
  "first_occurrence key cls s = Some v \<longleftrightarrow>
     (\<exists>i \<le> length s. (\<exists>r. field_at key cls (drop i s) = Some (v, r)) \<and>
                      (\<forall>j < i. field_at key cls (drop j s) = None))"
proof
  assume "first_occurrence key cls s = Some v"
  then obtain i where
    f: "find (\<lambda>i. field_at key cls (drop i s) \<noteq> None) [0..<Suc (length s)] = Some i" and
    m: "map_option fst (field_at key cls (drop i s)) = Some v"
    unfolding first_occurrence_def by (auto split: option.splits simp del: upt_Suc)
  from f have "i < Suc (length s)" "\<forall>j < i. \<not> field_at key cls (drop j s) \<noteq> None"
    unfolding find_upt_Some_iff by blast+
  then have "i \<le> length s" "\<forall>j < i. field_at key cls (drop j s) = None"
    by (simp, blast)
  moreover from m obtain r where "field_at key cls (drop i s) = Some (v, r)"
    by auto
  ultimately show "\<exists>i \<le> length s. (\<exists>r. field_at key cls (drop i s) = Some (v, r)) \<and>
                      (\<forall>j < i. field_at key cls (drop j s) = None)"
    by blast
next
  assume "\<exists>i \<le> length s. (\<exists>r. field_at key cls (drop i s) = Some (v, r)) \<and>
                      (\<forall>j < i. field_at key cls (drop j s) = None)"
  then obtain i r where i: "i \<le> length s" "field_at key cls (drop i s) = Some (v, r)"
    "\<forall>j < i. field_at key cls (drop j s) = None"
    by blast
  then have "find (\<lambda>i. field_at key cls (drop i s) \<noteq> None) [0..<Suc (length s)] = Some i"
    unfolding find_upt_Some_iff by simp
  then show "first_occurrence key cls s = Some v"
    unfolding first_occurrence_def by (simp add: i(2) del: upt_Suc)
qed





section \<open>The scanner\<close>



text \<open>The loop body, with every search of the text read as a first occurrence.\<close>

lemma parseManifest_eq:
  "parseManifest h libraryPath steamappsPath manifestFile =
     (if \<not> existsSync h (join h [steamappsPath, manifestFile]) then None
      else
        (case readFile h (join h [steamappsPath, manifestFile]) of
           None \<Rightarrow> None
         | Some content \<Rightarrow>
             (case regex_search appid_at manifestFile of
                None \<Rightarrow> None
              | Some ds \<Rightarrow>
                  if reserved (parseInt ds) then None
                  else
                    (case first_occurrence ''name'' not_quote content of
                       None \<Rightarrow> None
                     | Some nm \<Rightarrow>
                         (case first_occurrence ''installdir'' not_quote content of
                            None \<Rightarrow> None
                          | Some dir \<Rightarrow>
                              Some \<lparr>appid = parseInt ds,
                                    name = nm,
                                    installDir = join h [libraryPath, ''steamapps'', ''common'', dir],
                                    sizeOnDisk =
                                      (case first_occurrence ''SizeOnDisk'' is_digit content of
                                         Some d \<Rightarrow> parseInt d | None \<Rightarrow> 0),
                                    lastUpdated =
                                      map_option parseInt
                                        (first_occurrence ''LastUpdated'' is_digit content),
                                    state =
                                      map_option parseInt
                                        (first_occurrence ''StateFlags'' is_digit content)\<rparr>)))))"
  unfolding parseManifest_def Let_def regex_search_first reserved_def
  by (simp split: option.splits)

lemma scanManifests_append:
  "scanManifests h lp sp (fs @ gs) = scanManifests h lp sp fs @ scanManifests h lp sp gs"
  by (induction fs) (simp_all split: option.splits)

lemma scanManifests_set:
  "set (scanManifests h lp sp fs) = {g. \<exists>f \<in> set fs. parseManifest h lp sp f = Some g}"
  by (induction fs) (auto split: option.splits)

lemma parseManifest_not_reserved:
  assumes "parseManifest h lp sp f = Some g"
  shows "\<not> reserved (appid g)"
  using assms unfolding parseManifest_eq
  by (auto split: if_splits option.splits)

lemma parseAppManifests_not_reserved:
  assumes "g \<in> set (parseAppManifests h lp)"
  shows "\<not> reserved (appid g)"
proof -
  from assms obtain sp fs where "g \<in> set (scanManifests h lp sp fs)"
    unfolding parseAppManifests_def Let_def by (auto split: if_splits option.splits)
  then obtain f where "parseManifest h lp sp f = Some g"
    unfolding scanManifests_set by blast
  then show ?thesis
    by (rule parseManifest_not_reserved)
qed

subsection \<open>The concrete host\<close>

lemma exampleHost_sel:
  "platform exampleHost = ''win32''"
  "execAsync exampleHost = exampleRegistry"
  "existsSync exampleHost = (\<lambda>p. p \<in> set examplePaths)"
  "readFile exampleHost = map_of exampleFiles"
  "readdir exampleHost = map_of exampleDirs"
  "join exampleHost = joinSlash"
  "localeCompare exampleHost = compareIgnoringCase"
  by (simp_all add: exampleHost_def)

lemmas pattern_eval =
  field_at_def appid_at_def plus_cls_def is_digit_def is_space_def dq_def not_quote_def
  parseInt_def digit_val_def pair_def

lemma manifestDota_fields:
  "first_occurrence ''name'' not_quote manifestDota = Some ''Dota 2''"
  "first_occurrence ''installdir'' not_quote manifestDota = Some ''dota 2 beta''"
  "first_occurrence ''SizeOnDisk'' is_digit manifestDota = Some ''12000000000''"
  "first_occurrence ''LastUpdated'' is_digit manifestDota = Some ''1700000000''"
  "first_occurrence ''StateFlags'' is_digit manifestDota = Some ''4''"
  unfolding regex_search_first [symmetric] manifestDota_def
  by (simp_all add: pattern_eval)

lemma manifestClient_fields:
  "first_occurrence ''name'' not_quote manifestClient = Some ''Steamworks Common Redistributables''"
  "first_occurrence ''installdir'' not_quote manifestClient = Some ''Steamworks Shared''"
  unfolding regex_search_first [symmetric] manifestClient_def
  by (simp_all add: pattern_eval)

lemma manifestNoDir_fields:
  "first_occurrence ''name'' not_quote manifestNoDir = Some ''Team Fortress 2''"
  "first_occurrence ''installdir'' not_quote manifestNoDir = None"
  "first_occurrence ''SizeOnDisk'' is_digit manifestNoDir = Some ''500''"
  "first_occurrence ''LastUpdated'' is_digit manifestNoDir = Some ''1600000000''"
  "first_occurrence ''StateFlags'' is_digit manifestNoDir = Some ''4''"
  unfolding regex_search_first [symmetric] manifestNoDir_def
  by (simp_all add: pattern_eval)

lemma manifestTwoNames_fields:
  "first_occurrence ''name'' not_quote manifestTwoNames = Some ''counter-Strike''"
  "first_occurrence ''installdir'' not_quote manifestTwoNames = Some ''cs''"
  "first_occurrence ''SizeOnDisk'' is_digit manifestTwoNames = None"
  "first_occurrence ''LastUpdated'' is_digit manifestTwoNames = None"
  "first_occurrence ''StateFlags'' is_digit manifestTwoNames = None"
  unfolding regex_search_first [symmetric] manifestTwoNames_def
  by (simp_all add: pattern_eval)

lemma example_numbers:
  "parseInt ''570'' = 570" "parseInt ''7'' = 7" "parseInt ''440'' = 440" "parseInt ''730'' = 730"
  "parseInt ''10'' = 10" "parseInt ''228980'' = 228980" "parseInt ''12000000000'' = 12000000000"
  "parseInt ''1700000000'' = 1700000000" "parseInt ''4'' = 4"
  by (simp_all add: parseInt_def digit_val_def)

lemma example_appids:
  "regex_search appid_at ''appmanifest_570.acf'' = Some ''570''"
  "regex_search appid_at ''appmanifest_7.acf'' = Some ''7''"
  "regex_search appid_at ''appmanifest_440.acf'' = Some ''440''"
  "regex_search appid_at ''appmanifest_730.acf'' = Some ''730''"
  "regex_search appid_at ''appmanifest_10.acf'' = Some ''10''"
  "regex_search appid_at ''appmanifest_228980.acf'' = Some ''228980''"
  by (simp_all add: appid_at_def plus_cls_def is_digit_def)

lemmas example_eval =
  exampleHost_sel examplePaths_def exampleFiles_def exampleDirs_def example_numbers
  example_appids manifestDota_fields manifestClient_fields manifestNoDir_fields
  manifestTwoNames_fields reserved_def

lemma example_base_manifests:
  "parseManifest exampleHost ''C:/Steam'' ''C:/Steam/steamapps'' ''appmanifest_570.acf''
     = Some dotaBase"
  "parseManifest exampleHost ''C:/Steam'' ''C:/Steam/steamapps'' ''appmanifest_7.acf'' = None"
  "parseManifest exampleHost ''C:/Steam'' ''C:/Steam/steamapps'' ''appmanifest_440.acf'' = None"
  "parseManifest exampleHost ''C:/Steam'' ''C:/Steam/steamapps'' ''appmanifest_730.acf'' = None"
  unfolding parseManifest_eq example_appids by (simp_all add: example_eval dotaBase_def)

lemma example_extra_manifests:
  "parseManifest exampleHost ''D:/Games'' ''D:/Games/steamapps'' ''appmanifest_570.acf''
     = Some dotaExtra"
  "parseManifest exampleHost ''D:/Games'' ''D:/Games/steamapps'' ''appmanifest_10.acf''
     = Some counterStrike"
  "parseManifest exampleHost ''D:/Games'' ''D:/Games/steamapps'' ''appmanifest_228980.acf''
     = None"
  unfolding parseManifest_eq example_appids
  by (simp_all add: example_eval dotaExtra_def counterStrike_def)

lemma example_scans:
  "parseAppManifests exampleHost ''C:/Steam'' = [dotaBase]"
  "parseAppManifests exampleHost ''D:/Games'' = [dotaExtra, counterStrike]"
  unfolding parseAppManifests_def Let_def
  by (simp_all add: exampleHost_sel examplePaths_def exampleDirs_def endsWith_def
      example_base_manifests [unfolded exampleHost_sel] example_extra_manifests [unfolded exampleHost_sel])


subsection \<open>Claims about the scanner\<close>




text \<open>
  C6. A manifest text in which the \<open>name\<close> pattern or the \<open>installdir\<close> pattern occurs
  nowhere yields no game, whatever else it contains. A manifest that exists, is read, has
  a file name with a non-reserved identifier and has both required fields always yields a
  game, whatever the optional fields are: \<open>sizeOnDisk\<close> is \<open>0\<close> and \<open>lastUpdated\<close> and
  \<open>state\<close> are unset when the numeric pattern of the field occurs nowhere. A pair whose
  value is not a run of digits is no occurrence of the numeric pattern, so it counts as
  absent.
\<close>

theorem required_fields_decide:
  "(readFile h (join h [steamappsPath, manifestFile]) = Some content
      \<and> (first_occurrence ''name'' not_quote content = None
           \<or> first_occurrence ''installdir'' not_quote content = None)
     \<longrightarrow> parseManifest h libraryPath steamappsPath manifestFile = None)
   \<and> (existsSync h (join h [steamappsPath, manifestFile])
        \<and> readFile h (join h [steamappsPath, manifestFile]) = Some content
        \<and> regex_search appid_at manifestFile = Some ds \<and> \<not> reserved (parseInt ds)
        \<and> first_occurrence ''name'' not_quote content = Some nm
        \<and> first_occurrence ''installdir'' not_quote content = Some dir
     \<longrightarrow> (\<exists>g. parseManifest h libraryPath steamappsPath manifestFile = Some g
              \<and> appid g = parseInt ds \<and> name g = nm
              \<and> installDir g = join h [libraryPath, ''steamapps'', ''common'', dir]
              \<and> (first_occurrence ''SizeOnDisk'' is_digit content = None \<longrightarrow> sizeOnDisk g = 0)
              \<and> (first_occurrence ''LastUpdated'' is_digit content = None
                    \<longrightarrow> lastUpdated g = None)
              \<and> (first_occurrence ''StateFlags'' is_digit content = None \<longrightarrow> state g = None)))
   \<and> ((\<forall>c \<in> set ws. is_space c) \<and> dq \<notin> set v \<and> (\<exists>c \<in> set v. \<not> is_digit c)
     \<longrightarrow> field_at key is_digit (dq # key @ [dq] @ ws @ [dq] @ v @ [dq] @ post) = None)"
proof (intro conjI impI)
  assume "readFile h (join h [steamappsPath, manifestFile]) = Some content
      \<and> (first_occurrence ''name'' not_quote content = None
           \<or> first_occurrence ''installdir'' not_quote content = None)"
  then show "parseManifest h libraryPath steamappsPath manifestFile = None"
    unfolding parseManifest_eq by (auto split: option.splits)
next
  assume "existsSync h (join h [steamappsPath, manifestFile])
        \<and> readFile h (join h [steamappsPath, manifestFile]) = Some content
        \<and> regex_search appid_at manifestFile = Some ds \<and> \<not> reserved (parseInt ds)
        \<and> first_occurrence ''name'' not_quote content = Some nm
        \<and> first_occurrence ''installdir'' not_quote content = Some dir"
  then show "\<exists>g. parseManifest h libraryPath steamappsPath manifestFile = Some g
              \<and> appid g = parseInt ds \<and> name g = nm
              \<and> installDir g = join h [libraryPath, ''steamapps'', ''common'', dir]
              \<and> (first_occurrence ''SizeOnDisk'' is_digit content = None \<longrightarrow> sizeOnDisk g = 0)
              \<and> (first_occurrence ''LastUpdated'' is_digit content = None
                    \<longrightarrow> lastUpdated g = None)
              \<and> (first_occurrence ''StateFlags'' is_digit content = None \<longrightarrow> state g = None)"
    unfolding parseManifest_eq by simp
next
  assume "(\<forall>c \<in> set ws. is_space c) \<and> dq \<notin> set v \<and> (\<exists>c \<in> set v. \<not> is_digit c)"
  then show "field_at key is_digit (dq # key @ [dq] @ ws @ [dq] @ v @ [dq] @ post) = None"
    using field_at_non_numeric [of ws v key post] by blast
qed

theorem required_fields_decide_witness:
  "parseManifest exampleHost ''C:/Steam'' ''C:/Steam/steamapps'' ''appmanifest_440.acf'' = None
   \<and> first_occurrence ''name'' not_quote manifestNoDir = Some ''Team Fortress 2''
   \<and> first_occurrence ''SizeOnDisk'' is_digit manifestNoDir = Some ''500''
   \<and> (\<exists>g. parseManifest exampleHost ''D:/Games'' ''D:/Games/steamapps'' ''appmanifest_10.acf''
              = Some g
          \<and> appid g = parseInt ''10'' \<and> name g = ''counter-Strike''
          \<and> sizeOnDisk g = 0 \<and> lastUpdated g = None \<and> state g = None)
   \<and> field_at ''SizeOnDisk'' is_digit
        (dq # ''SizeOnDisk'' @ [dq] @ [CHR 0x09, CHR 0x09] @ [dq] @ ''12abc'' @ [dq] @ [CHR 0x0A])
      = None"
proof -
  have 1: "parseManifest exampleHost ''C:/Steam'' ''C:/Steam/steamapps'' ''appmanifest_440.acf''
           = None"
    using required_fields_decide
      [of exampleHost "''C:/Steam/steamapps''" "''appmanifest_440.acf''" manifestNoDir
          "''C:/Steam''"]
    by (simp add: manifestNoDir_fields exampleHost_sel exampleFiles_def)
  have 2: "\<exists>g. parseManifest exampleHost ''D:/Games'' ''D:/Games/steamapps'' ''appmanifest_10.acf''
              = Some g
          \<and> appid g = parseInt ''10'' \<and> name g = ''counter-Strike''
          \<and> sizeOnDisk g = 0 \<and> lastUpdated g = None \<and> state g = None"
    using required_fields_decide
      [of exampleHost "''D:/Games/steamapps''" "''appmanifest_10.acf''" manifestTwoNames
          "''D:/Games''" "''10''" "''counter-Strike''" "''cs''"
          "[CHR 0x09, CHR 0x09]" "''12abc''" "''SizeOnDisk''" "[CHR 0x0A]"]
    unfolding example_appids
    by (simp add: manifestTwoNames_fields exampleHost_sel exampleFiles_def examplePaths_def
        example_numbers reserved_def) blast
  have 3: "field_at ''SizeOnDisk'' is_digit
        (dq # ''SizeOnDisk'' @ [dq] @ [CHR 0x09, CHR 0x09] @ [dq] @ ''12abc'' @ [dq] @ [CHR 0x0A])
      = None"
    using required_fields_decide
      [of exampleHost "''D:/Games/steamapps''" "''appmanifest_10.acf''" manifestTwoNames
          "''D:/Games''" "''10''" "''counter-Strike''" "''cs''"
          "[CHR 0x09, CHR 0x09]" "''12abc''" "''SizeOnDisk''" "[CHR 0x0A]"]
    by (simp add: is_space_def is_digit_def dq_def)
  from 1 2 3 show ?thesis
    by (simp add: manifestNoDir_fields)
qed

text \<open>
  C10. Each of the five fields of a game comes from the first occurrence of its own
  pattern in the manifest text, each searched from the start of the text: the pattern
  matches at the position taken and at no earlier position.
\<close>

theorem first_occurrence_wins:
  assumes "parseManifest h libraryPath steamappsPath manifestFile = Some g"
      and "readFile h (join h [steamappsPath, manifestFile]) = Some content"
  shows "first_occurrence ''name'' not_quote content = Some (name g)
       \<and> (\<exists>d. first_occurrence ''installdir'' not_quote content = Some d
              \<and> installDir g = join h [libraryPath, ''steamapps'', ''common'', d])
       \<and> sizeOnDisk g = (case first_occurrence ''SizeOnDisk'' is_digit content of
                           None \<Rightarrow> 0 | Some d \<Rightarrow> parseInt d)
       \<and> lastUpdated g = map_option parseInt (first_occurrence ''LastUpdated'' is_digit content)
       \<and> state g = map_option parseInt (first_occurrence ''StateFlags'' is_digit content)
       \<and> (\<forall>key cls v. first_occurrence key cls content = Some v \<longleftrightarrow>
             (\<exists>i \<le> length content.
                (\<exists>r. field_at key cls (drop i content) = Some (v, r)) \<and>
                (\<forall>j < i. field_at key cls (drop j content) = None)))"
proof -
  have "first_occurrence ''name'' not_quote content = Some (name g)
       \<and> (\<exists>d. first_occurrence ''installdir'' not_quote content = Some d
              \<and> installDir g = join h [libraryPath, ''steamapps'', ''common'', d])
       \<and> sizeOnDisk g = (case first_occurrence ''SizeOnDisk'' is_digit content of
                           None \<Rightarrow> 0 | Some d \<Rightarrow> parseInt d)
       \<and> lastUpdated g = map_option parseInt (first_occurrence ''LastUpdated'' is_digit content)
       \<and> state g = map_option parseInt (first_occurrence ''StateFlags'' is_digit content)"
    using assms unfolding parseManifest_eq
    by (auto split: if_splits option.splits)
  then show ?thesis
    using first_occurrence_Some_iff [of _ _ content] by blast
qed

theorem first_occurrence_wins_witness:
  "parseManifest exampleHost ''D:/Games'' ''D:/Games/steamapps'' ''appmanifest_10.acf''
     = Some counterStrike
   \<and> readFile exampleHost (join exampleHost [''D:/Games/steamapps'', ''appmanifest_10.acf''])
       = Some manifestTwoNames
   \<and> manifestTwoNames =
       pair ''name'' ''counter-Strike'' @ pair ''installdir'' ''cs'' @
       pair ''SizeOnDisk'' ''12abc'' @ pair ''name'' ''Second Name'' @
       pair ''installdir'' ''second dir''
   \<and> first_occurrence ''name'' not_quote manifestTwoNames = Some ''counter-Strike''
   \<and> first_occurrence ''installdir'' not_quote manifestTwoNames = Some ''cs''
   \<and> installDir counterStrike = join exampleHost [''D:/Games'', ''steamapps'', ''common'', ''cs'']"
proof -
  have p: "parseManifest exampleHost ''D:/Games'' ''D:/Games/steamapps'' ''appmanifest_10.acf''
     = Some counterStrike"
    by (rule example_extra_manifests)
  have r: "readFile exampleHost (join exampleHost [''D:/Games/steamapps'', ''appmanifest_10.acf''])
       = Some manifestTwoNames"
    by (simp add: exampleHost_sel exampleFiles_def)
  have n: "name counterStrike = ''counter-Strike''"
    by (simp add: counterStrike_def)
  have m: "manifestTwoNames =
       pair ''name'' ''counter-Strike'' @ pair ''installdir'' ''cs'' @
       pair ''SizeOnDisk'' ''12abc'' @ pair ''name'' ''Second Name'' @
       pair ''installdir'' ''second dir''"
    by (simp add: manifestTwoNames_def)
  from first_occurrence_wins [OF p r]
  have a: "first_occurrence ''name'' not_quote manifestTwoNames = Some (name counterStrike)"
    and "\<exists>d. first_occurrence ''installdir'' not_quote manifestTwoNames = Some d
              \<and> installDir counterStrike
                  = join exampleHost [''D:/Games'', ''steamapps'', ''common'', d]"
    by blast+
  then obtain d where d: "first_occurrence ''installdir'' not_quote manifestTwoNames = Some d"
    "installDir counterStrike = join exampleHost [''D:/Games'', ''steamapps'', ''common'', d]"
    by blast
  from d(1) have "d = ''cs''"
    by (simp add: manifestTwoNames_fields)
  with d have b: "first_occurrence ''installdir'' not_quote manifestTwoNames = Some ''cs''"
    "installDir counterStrike = join exampleHost [''D:/Games'', ''steamapps'', ''common'', ''cs'']"
    by simp_all
  from a n have c: "first_occurrence ''name'' not_quote manifestTwoNames = Some ''counter-Strike''"
    by simp
  from p r m c b show ?thesis
    by blast
qed


section \<open>The path resolver\<close>

lemma tryRegistryPaths_None_iff:
  "tryRegistryPaths h keys = None \<longleftrightarrow> (\<forall>key \<in> set keys. \<not> resolves h key)"
  by (induction keys) (auto simp: resolves_def Let_def split: option.splits)

lemma tryRegistryPaths_Some:
  assumes "tryRegistryPaths h keys = Some p"
  shows "p \<noteq> [] \<and> existsSync h p
         \<and> (\<exists>key \<in> set keys. \<exists>out. execAsync h key = Some out \<and> p = trim out)"
  using assms
  by (induction keys) (auto simp: Let_def split: option.splits if_splits)

lemma tryRegistryPaths_first:
  assumes "resolves h key" and "execAsync h key = Some out"
  shows "tryRegistryPaths h (key # keys) = Some (trim out)"
  using assms by (simp add: resolves_def Let_def)

text \<open>
  C1, as the code has it. On an unsupported platform \<open>getSteamPath\<close> throws
  (\<open>PlatformUnsupported\<close>); it does not return. On \<open>win32\<close> it never throws: it
  returns \<open>null\<close> exactly when neither of the two registry keys resolves, that is when for
  each key the query fails or its trimmed output is empty or does not exist on disk, and
  otherwise a non-empty path that exists, the one of the first key that resolves.
\<close>

theorem getSteamPath_result:
  "(platform h \<noteq> ''win32'' \<longrightarrow> getSteamPath h = Inl PlatformUnsupported)
   \<and> (platform h = ''win32'' \<longrightarrow>
        (\<exists>r. getSteamPath h = Inr r
           \<and> (r = None \<longleftrightarrow> (\<forall>key \<in> set registryPaths. \<not> resolves h key))
           \<and> (\<forall>p. r = Some p \<longrightarrow>
                 p \<noteq> [] \<and> existsSync h p
                 \<and> (\<exists>key \<in> set registryPaths. \<exists>out. execAsync h key = Some out \<and> p = trim out))
           \<and> (\<forall>out. resolves h (keyWow6432) \<and> execAsync h (keyWow6432) = Some out
                 \<longrightarrow> r = Some (trim out))))"
proof (intro conjI impI)
  assume "platform h \<noteq> ''win32''"
  then show "getSteamPath h = Inl PlatformUnsupported"
    by (simp add: getSteamPath_def)
next
  assume w: "platform h = ''win32''"
  let ?r = "tryRegistryPaths h registryPaths"
  have 1: "getSteamPath h = Inr ?r"
    using w by (simp add: getSteamPath_def)
  have 2: "?r = None \<longleftrightarrow> (\<forall>key \<in> set registryPaths. \<not> resolves h key)"
    by (rule tryRegistryPaths_None_iff)
  have 3: "\<forall>p. ?r = Some p \<longrightarrow>
                 p \<noteq> [] \<and> existsSync h p
                 \<and> (\<exists>key \<in> set registryPaths. \<exists>out. execAsync h key = Some out \<and> p = trim out)"
    using tryRegistryPaths_Some by blast
  have 4: "\<forall>out. resolves h (keyWow6432) \<and> execAsync h (keyWow6432) = Some out
                 \<longrightarrow> ?r = Some (trim out)"
    using tryRegistryPaths_first [of h keyWow6432 _ "[keyNative]"]
    by (simp add: registryPaths_def)
  from 1 2 3 4 show "\<exists>r. getSteamPath h = Inr r
           \<and> (r = None \<longleftrightarrow> (\<forall>key \<in> set registryPaths. \<not> resolves h key))
           \<and> (\<forall>p. r = Some p \<longrightarrow>
                 p \<noteq> [] \<and> existsSync h p
                 \<and> (\<exists>key \<in> set registryPaths. \<exists>out. execAsync h key = Some out \<and> p = trim out))
           \<and> (\<forall>out. resolves h (keyWow6432) \<and> execAsync h (keyWow6432) = Some out
                 \<longrightarrow> r = Some (trim out))"
    by (intro exI [of _ ?r] conjI)
qed

lemma example_registry:
  "exampleRegistry keyWow6432 = None"
  "exampleRegistry keyNative = Some exampleStdout"
  by (simp_all add: exampleRegistry_def keyWow6432_def keyNative_def)

lemma example_trim: "trim exampleStdout = ''C:/Steam''"
  by (simp add: exampleStdout_def trim_def is_space_def)

lemma example_resolves:
  "\<not> resolves exampleHost (keyWow6432)" "resolves exampleHost (keyNative)"
  by (simp_all add: resolves_def exampleHost_sel example_registry example_trim examplePaths_def)

lemma example_steamPath: "getSteamPath exampleHost = Inr (Some ''C:/Steam'')"
proof -
  have "tryRegistryPaths exampleHost [keyWow6432, keyNative] = Some ''C:/Steam''"
    by (simp add: exampleHost_sel example_registry example_trim examplePaths_def)
  then show ?thesis
    by (simp add: getSteamPath_def exampleHost_sel registryPaths_def)
qed

theorem getSteamPath_result_witness:
  "platform exampleHost = ''win32''
   \<and> \<not> resolves exampleHost (keyWow6432) \<and> resolves exampleHost (keyNative)
   \<and> getSteamPath exampleHost = Inr (Some ''C:/Steam'')
   \<and> ''C:/Steam'' \<noteq> [] \<and> existsSync exampleHost ''C:/Steam''
   \<and> platform (exampleHost\<lparr>execAsync := \<lambda>key. None\<rparr>) = ''win32''
   \<and> getSteamPath (exampleHost\<lparr>execAsync := \<lambda>key. None\<rparr>) = Inr None"
proof -
  from getSteamPath_result [of exampleHost]
  obtain r where r: "getSteamPath exampleHost = Inr r"
    "r = None \<longleftrightarrow> (\<forall>key \<in> set registryPaths. \<not> resolves exampleHost key)"
    "\<forall>p. r = Some p \<longrightarrow> p \<noteq> [] \<and> existsSync exampleHost p"
    by (auto simp: exampleHost_sel)
  from r(1) have "r = Some ''C:/Steam''"
    by (simp add: example_steamPath)
  with r have a: "getSteamPath exampleHost = Inr (Some ''C:/Steam'')"
    "''C:/Steam'' \<noteq> [] \<and> existsSync exampleHost ''C:/Steam''"
    by blast+
  let ?h = "exampleHost\<lparr>execAsync := \<lambda>key. None\<rparr>"
  have w: "platform ?h = ''win32''"
    by (simp add: exampleHost_sel)
  have n: "\<forall>key \<in> set registryPaths. \<not> resolves ?h key"
    by (simp add: resolves_def)
  from getSteamPath_result [of ?h] w n have b: "getSteamPath ?h = Inr None"
    by auto
  from a b w example_resolves show ?thesis
    by (simp add: exampleHost_sel)
qed

theorem getSteamPath_throws_on_other_platform:
  "platform (exampleHost\<lparr>platform := ''linux''\<rparr>) \<noteq> ''win32''
   \<and> getSteamPath (exampleHost\<lparr>platform := ''linux''\<rparr>) = Inl PlatformUnsupported
   \<and> getSteamPath (exampleHost\<lparr>platform := ''linux''\<rparr>) \<noteq> Inr None"
  by (simp add: getSteamPath_def)


section \<open>The aggregator\<close>

subsection \<open>Library paths\<close>

lemma getSteamLibraryPaths_base_first:
  "\<exists>rest. getSteamLibraryPaths h steamPath = steamPath # rest"
  by (simp add: getSteamLibraryPaths_def Let_def split: option.splits)

lemma getSteamLibraryPaths_unreadable:
  assumes "readFile h (join h [steamPath, ''steamapps'', ''libraryfolders.vdf'']) = None"
  shows "getSteamLibraryPaths h steamPath = [steamPath]"
  using assms by (simp add: getSteamLibraryPaths_def Let_def)

lemma parseAppManifests_unreadable:
  assumes "\<not> existsSync h (join h [libraryPath, ''steamapps''])
           \<or> readdir h (join h [libraryPath, ''steamapps'']) = None"
  shows "parseAppManifests h libraryPath = []"
  using assms by (auto simp: parseAppManifests_def Let_def)

subsection \<open>Removing duplicates\<close>

lemma findIndex_ge: "- 1 \<le> findIndex P xs"
  by (induction xs) (simp_all add: Let_def)

lemma findIndex_Some:
  assumes "findIndex P xs = int i"
  shows "i < length xs \<and> P (xs ! i) \<and> (\<forall>j < i. \<not> P (xs ! j))"
  using assms
proof (induction xs arbitrary: i)
  case Nil
  then show ?case by simp
next
  case (Cons x xs)
  show ?case
  proof (cases "P x")
    case True
    with Cons.prems show ?thesis by simp
  next
    case False
    with Cons.prems have r: "\<not> findIndex P xs < 0" "findIndex P xs + 1 = int i"
      by (auto simp: Let_def split: if_splits)
    then obtain k where k: "i = Suc k" "findIndex P xs = int k"
      by (cases i) auto
    from Cons.IH [OF k(2)] False show ?thesis
      by (auto simp: k(1) nth_Cons split: nat.splits)
  qed
qed

lemma findIndex_first:
  assumes "i < length xs" and "P (xs ! i)" and "\<forall>j < i. \<not> P (xs ! j)"
  shows "findIndex P xs = int i"
  using assms
proof (induction xs arbitrary: i)
  case Nil
  then show ?case by simp
next
  case (Cons x xs)
  show ?case
  proof (cases i)
    case 0
    with Cons.prems show ?thesis by simp
  next
    case (Suc k)
    with Cons.prems have "\<not> P x"
      by auto
    moreover have "findIndex P xs = int k"
      using Cons.prems Suc by (intro Cons.IH) auto
    ultimately show ?thesis
      by (simp add: Suc Let_def)
  qed
qed

lemma removeDuplicates_iff:
  "g \<in> set (removeDuplicates xs) \<longleftrightarrow>
     (\<exists>i < length xs. xs ! i = g \<and> (\<forall>j < i. appid (xs ! j) \<noteq> appid g))"
proof
  assume "g \<in> set (removeDuplicates xs)"
  then obtain i where "(g, i) \<in> set (zip xs [0..<length xs])"
    and q: "int i = findIndex (\<lambda>g'. appid g' = appid g) xs"
    unfolding removeDuplicates_def filterIndexed_def by auto
  then have i: "i < length xs" "xs ! i = g"
    by (auto simp: in_set_zip)
  from findIndex_Some [OF q [symmetric]] i
  show "\<exists>i < length xs. xs ! i = g \<and> (\<forall>j < i. appid (xs ! j) \<noteq> appid g)"
    by blast
next
  assume "\<exists>i < length xs. xs ! i = g \<and> (\<forall>j < i. appid (xs ! j) \<noteq> appid g)"
  then obtain i where i: "i < length xs" "xs ! i = g" "\<forall>j < i. appid (xs ! j) \<noteq> appid g"
    by blast
  then have "findIndex (\<lambda>g'. appid g' = appid g) xs = int i"
    by (intro findIndex_first) auto
  moreover have "(g, i) \<in> set (zip xs [0..<length xs])"
    using i(1,2) by (auto simp: in_set_zip)
  ultimately show "g \<in> set (removeDuplicates xs)"
    unfolding removeDuplicates_def filterIndexed_def by force
qed

lemma removeDuplicates_find:
  "g \<in> set (removeDuplicates xs) \<longleftrightarrow> find (\<lambda>g'. appid g' = appid g) xs = Some g"
  unfolding removeDuplicates_iff find_Some_iff by auto

lemma removeDuplicates_appids:
  "appid ` set (removeDuplicates xs) = appid ` set xs"
proof
  show "appid ` set (removeDuplicates xs) \<subseteq> appid ` set xs"
    by (force simp: removeDuplicates_iff)
  show "appid ` set xs \<subseteq> appid ` set (removeDuplicates xs)"
  proof
    fix a assume "a \<in> appid ` set xs"
    then have "\<exists>x. x \<in> set xs \<and> appid x = a"
      by auto
    then obtain g where "find (\<lambda>g'. appid g' = a) xs = Some g"
      by (cases "find (\<lambda>g'. appid g' = a) xs") (auto simp: find_None_iff)
    moreover from this have "appid g = a"
      by (auto simp: find_Some_iff)
    ultimately have "g \<in> set (removeDuplicates xs)"
      unfolding removeDuplicates_find by simp
    with \<open>appid g = a\<close> show "a \<in> appid ` set (removeDuplicates xs)"
      by auto
  qed
qed

lemma removeDuplicates_distinct: "distinct (map appid (removeDuplicates xs))"
proof -
  let ?Q = "\<lambda>(x, index). int index = findIndex (\<lambda>g. appid g = appid x) xs"
  let ?zs = "filter ?Q (zip xs [0..<length xs])"
  have d: "distinct ?zs"
    by (intro distinct_filter distinct_zipI2) simp
  have inj: "inj_on (\<lambda>z. appid (fst z)) (set ?zs)"
  proof (rule inj_onI)
    fix z z' assume z: "z \<in> set ?zs" and z': "z' \<in> set ?zs"
      and eq: "appid (fst z) = appid (fst z')"
    obtain x i where zx: "z = (x, i)" by (cases z)
    obtain y j where zy: "z' = (y, j)" by (cases z')
    from z zx have 1: "i < length xs" "xs ! i = x"
      "int i = findIndex (\<lambda>g. appid g = appid x) xs"
      by (auto simp: in_set_zip)
    from z' zy have 2: "j < length xs" "xs ! j = y"
      "int j = findIndex (\<lambda>g. appid g = appid y) xs"
      by (auto simp: in_set_zip)
    from eq zx zy have "appid x = appid y" by simp
    with 1(3) 2(3) have "i = j" by simp
    with 1(2) 2(2) zx zy show "z = z'" by simp
  qed
  have "distinct (map (\<lambda>z. appid (fst z)) ?zs)"
    using d inj by (simp add: distinct_map)
  then show ?thesis
    unfolding removeDuplicates_def filterIndexed_def by (simp add: comp_def)
qed

subsection \<open>Sorting\<close>

lemma set_insertBy: "set (insertBy cmp x ys) = insert x (set ys)"
  by (induction ys) auto

lemma set_sortBy: "set (sortBy cmp xs) = set xs"
  unfolding sortBy_def by (induction xs) (simp_all add: set_insertBy)

lemma distinct_map_insertBy:
  "distinct (map f (insertBy cmp x ys)) \<longleftrightarrow> f x \<notin> f ` set ys \<and> distinct (map f ys)"
  by (induction ys) (auto simp: set_insertBy)

lemma distinct_map_sortBy: "distinct (map f (sortBy cmp xs)) \<longleftrightarrow> distinct (map f xs)"
  unfolding sortBy_def
proof (induction xs)
  case Nil
  then show ?case by simp
next
  case (Cons x xs)
  have "set (foldr (insertBy cmp) xs []) = set xs"
    using set_sortBy [of cmp xs] by (simp add: sortBy_def)
  with Cons show ?case
    by (simp add: distinct_map_insertBy)
qed







subsection \<open>The whole scan\<close>

lemma getSteamPath_nonempty:
  assumes "getSteamPath h = Inr (Some p)"
  shows "p \<noteq> []"
  using assms tryRegistryPaths_Some [of h registryPaths p]
  by (auto simp: getSteamPath_def split: if_splits)

lemma getInstalledSteamGames_Inr:
  assumes "getInstalledSteamGames h = Inr info"
  obtains steamPath where "getSteamPath h = Inr (Some steamPath)"
    and "games info =
           sortBy (\<lambda>a b. localeCompare h (name a) (name b))
             (removeDuplicates
                (concat (map (parseAppManifests h) (getSteamLibraryPaths h steamPath))))"
    and "totalSize info = foldl (\<lambda>sum game. sum + sizeOnDisk game) 0 (games info)"
    and "gameCount info = length (games info)"
  using assms unfolding getInstalledSteamGames_def Let_def
  by (auto split: sum.splits option.splits if_splits)

lemma getInstalledSteamGames_Inl_iff:
  "getInstalledSteamGames h = Inl e \<longleftrightarrow>
     (platform h \<noteq> ''win32'' \<and> e = PlatformUnsupported)
     \<or> (platform h = ''win32'' \<and> (\<forall>key \<in> set registryPaths. \<not> resolves h key) \<and> e = NotFound)"
proof (cases "platform h = ''win32''")
  case False
  then show ?thesis
    by (auto simp: getInstalledSteamGames_def getSteamPath_def)
next
  case True
  show ?thesis
  proof (cases "tryRegistryPaths h registryPaths")
    case None
    with True show ?thesis
      using tryRegistryPaths_None_iff [of h registryPaths]
      by (auto simp: getInstalledSteamGames_def getSteamPath_def)
  next
    case (Some p)
    then have "p \<noteq> []" "\<not> (\<forall>key \<in> set registryPaths. \<not> resolves h key)"
      using tryRegistryPaths_Some [OF Some] tryRegistryPaths_None_iff [of h registryPaths]
      by auto
    with True Some show ?thesis
      by (simp add: getInstalledSteamGames_def getSteamPath_def Let_def)
  qed
qed


subsection \<open>The scan of the concrete host\<close>

lemma example_libraries:
  "getSteamLibraryPaths exampleHost ''C:/Steam'' = [''C:/Steam'', ''D:/Games'']"
  by (simp add: getSteamLibraryPaths_def exampleHost_sel examplePaths_def exampleFiles_def
      libraryFolders_def pair_def match_all.simps pathOfMatch_def field_at_def plus_cls_def
      is_space_def not_quote_def dq_def List.map_filter_def)

lemma example_names:
  "compareIgnoringCase ''counter-Strike'' ''Dota 2'' = - 1"
  "compareIgnoringCase ''Dota 2'' ''counter-Strike'' = 1"
  by (simp_all add: compareIgnoringCase_def toLower_def less_char_def)

lemma example_games:
  "appid dotaBase = 570" "appid dotaExtra = 570" "appid counterStrike = 10"
  "name dotaBase = ''Dota 2''" "name counterStrike = ''counter-Strike''"
  "sizeOnDisk dotaBase = 12000000000" "sizeOnDisk counterStrike = 0"
  "dotaBase \<noteq> dotaExtra" "dotaBase \<noteq> counterStrike" "dotaExtra \<noteq> counterStrike"
  by (simp_all add: dotaBase_def dotaExtra_def counterStrike_def)

lemma example_unique:
  "removeDuplicates [dotaBase, dotaExtra, counterStrike] = [dotaBase, counterStrike]"
  by (simp add: removeDuplicates_def filterIndexed_def example_games upt_conv_Cons)

lemma example_sorted:
  "sortBy (\<lambda>a b. compareIgnoringCase (name a) (name b)) [dotaBase, counterStrike]
     = [counterStrike, dotaBase]"
  by (simp add: sortBy_def example_games example_names)

lemma example_run:
  "getInstalledSteamGames exampleHost =
     Inr \<lparr>games = [counterStrike, dotaBase], totalSize = 12000000000, gameCount = 2\<rparr>"
  unfolding getInstalledSteamGames_def example_steamPath Let_def
  by (simp add: example_libraries example_scans example_unique exampleHost_sel
      example_sorted example_games(6,7))

subsection \<open>Claims about the aggregator\<close>




lemma removeDuplicates_subset: "set (removeDuplicates xs) \<subseteq> set xs"
  by (force simp: removeDuplicates_iff)

lemma find_append_first:
  "find P (xs @ ys) = (case find P xs of Some x \<Rightarrow> Some x | None \<Rightarrow> find P ys)"
  by (induction xs) simp_all

lemma find_concat:
  assumes "find P (concat xss) = Some x"
  shows "\<exists>i < length xss. find P (xss ! i) = Some x \<and> (\<forall>j < i. \<forall>y \<in> set (xss ! j). \<not> P y)"
  using assms
proof (induction xss)
  case Nil
  then show ?case by simp
next
  case (Cons xs xss)
  show ?case
  proof (cases "find P xs")
    case (Some a)
    with Cons.prems have "find P xs = Some x"
      by (simp add: find_append_first)
    then show ?thesis
      by (intro exI [of _ 0]) simp
  next
    case None
    with Cons.prems have "find P (concat xss) = Some x"
      by (simp add: find_append_first)
    from Cons.IH [OF this] obtain i where i: "i < length xss" "find P (xss ! i) = Some x"
      "\<forall>j < i. \<forall>y \<in> set (xss ! j). \<not> P y"
      by blast
    have "\<forall>j < Suc i. \<forall>y \<in> set ((xs # xss) ! j). \<not> P y"
    proof (intro allI impI)
      fix j assume "j < Suc i"
      then show "\<forall>y \<in> set ((xs # xss) ! j). \<not> P y"
        using None i(3) by (cases j) (auto simp: find_None_iff)
    qed
    with i(1,2) show ?thesis
      by (intro exI [of _ "Suc i"]) simp
  qed
qed

text \<open>
  C4. The library paths are enumerated with the base installation path first. Every game
  of the result is the first record with its \<open>appid\<close> in the concatenation of the
  per-library results, left to right: it is the first such record of some library, and no
  library enumerated before that one has a record with this \<open>appid\<close>. Every \<open>appid\<close>
  found in some library appears in the result, once.
\<close>

theorem first_library_wins:
  assumes "getInstalledSteamGames h = Inr info"
  shows "\<exists>steamPath rest.
           getSteamPath h = Inr (Some steamPath)
         \<and> getSteamLibraryPaths h steamPath = steamPath # rest
         \<and> (\<forall>g \<in> set (games info).
               find (\<lambda>g'. appid g' = appid g)
                 (concat (map (parseAppManifests h) (steamPath # rest))) = Some g
             \<and> (\<exists>i < length (steamPath # rest).
                   find (\<lambda>g'. appid g' = appid g) (parseAppManifests h ((steamPath # rest) ! i))
                     = Some g
                 \<and> (\<forall>j < i. \<forall>g' \<in> set (parseAppManifests h ((steamPath # rest) ! j)).
                       appid g' \<noteq> appid g)))
         \<and> appid ` set (games info)
             = appid ` set (concat (map (parseAppManifests h) (steamPath # rest)))
         \<and> distinct (map appid (games info))"
proof -
  from assms obtain steamPath where
    p: "getSteamPath h = Inr (Some steamPath)" and
    g: "games info =
           sortBy (\<lambda>a b. localeCompare h (name a) (name b))
             (removeDuplicates
                (concat (map (parseAppManifests h) (getSteamLibraryPaths h steamPath))))"
    by (rule getInstalledSteamGames_Inr)
  obtain rest where l: "getSteamLibraryPaths h steamPath = steamPath # rest"
    using getSteamLibraryPaths_base_first by blast
  let ?libs = "steamPath # rest"
  let ?all = "concat (map (parseAppManifests h) ?libs)"
  have s: "set (games info) = set (removeDuplicates ?all)"
    unfolding g l by (rule set_sortBy)
  have first: "find (\<lambda>g'. appid g' = appid g) ?all = Some g" if "g \<in> set (games info)" for g
    using that unfolding s removeDuplicates_find .
  have lib: "\<exists>i < length ?libs.
                   find (\<lambda>g'. appid g' = appid g) (parseAppManifests h (?libs ! i)) = Some g
                 \<and> (\<forall>j < i. \<forall>g' \<in> set (parseAppManifests h (?libs ! j)). appid g' \<noteq> appid g)"
    if "g \<in> set (games info)" for g
  proof -
    from find_concat [OF first [OF that]]
    obtain i where i: "i < length (map (parseAppManifests h) ?libs)"
      "find (\<lambda>g'. appid g' = appid g) (map (parseAppManifests h) ?libs ! i) = Some g"
      "\<forall>j < i. \<forall>y \<in> set (map (parseAppManifests h) ?libs ! j). appid y \<noteq> appid g"
      by blast
    from i(1) have il: "i < length ?libs"
      by simp
    have 1: "find (\<lambda>g'. appid g' = appid g) (parseAppManifests h (?libs ! i)) = Some g"
      using i(2) il by (simp only: nth_map)
    have 2: "\<forall>j < i. \<forall>g' \<in> set (parseAppManifests h (?libs ! j)). appid g' \<noteq> appid g"
    proof (intro allI impI)
      fix j assume j: "j < i"
      then have "j < length ?libs" using il by simp
      then have eq: "map (parseAppManifests h) ?libs ! j = parseAppManifests h (?libs ! j)"
        by (simp only: nth_map)
      from i(3) j have "\<forall>y \<in> set (map (parseAppManifests h) ?libs ! j). appid y \<noteq> appid g"
        by blast
      then show "\<forall>g' \<in> set (parseAppManifests h (?libs ! j)). appid g' \<noteq> appid g"
        unfolding eq .
    qed
    from il 1 2 show ?thesis
      by blast
  qed
  have a: "appid ` set (games info) = appid ` set ?all"
    unfolding s by (rule removeDuplicates_appids)
  have d: "distinct (map appid (games info))"
    unfolding g by (simp add: distinct_map_sortBy removeDuplicates_distinct)
  have both: "\<forall>g \<in> set (games info).
               find (\<lambda>g'. appid g' = appid g) ?all = Some g
             \<and> (\<exists>i < length ?libs.
                   find (\<lambda>g'. appid g' = appid g) (parseAppManifests h (?libs ! i)) = Some g
                 \<and> (\<forall>j < i. \<forall>g' \<in> set (parseAppManifests h (?libs ! j)).
                       appid g' \<noteq> appid g))"
    using first lib by blast
  show ?thesis
    using p l both a d by (intro exI [of _ steamPath] exI [of _ rest] conjI)
qed


theorem first_library_wins_witness:
  "getInstalledSteamGames exampleHost =
     Inr \<lparr>games = [counterStrike, dotaBase], totalSize = 12000000000, gameCount = 2\<rparr>
   \<and> getSteamLibraryPaths exampleHost ''C:/Steam'' = [''C:/Steam'', ''D:/Games'']
   \<and> parseAppManifests exampleHost ''C:/Steam'' = [dotaBase]
   \<and> parseAppManifests exampleHost ''D:/Games'' = [dotaExtra, counterStrike]
   \<and> appid dotaExtra = appid dotaBase \<and> dotaExtra \<noteq> dotaBase
   \<and> find (\<lambda>g'. appid g' = appid dotaBase)
        (concat (map (parseAppManifests exampleHost) [''C:/Steam'', ''D:/Games''])) = Some dotaBase"
proof -
  let ?info = "\<lparr>games = [counterStrike, dotaBase], totalSize = 12000000000, gameCount = 2\<rparr>"
  from first_library_wins [OF example_run]
  obtain steamPath rest where
    all: "getSteamPath exampleHost = Inr (Some steamPath)
         \<and> getSteamLibraryPaths exampleHost steamPath = steamPath # rest
         \<and> (\<forall>g \<in> set (games ?info).
               find (\<lambda>g'. appid g' = appid g)
                 (concat (map (parseAppManifests exampleHost) (steamPath # rest))) = Some g
             \<and> (\<exists>i < length (steamPath # rest).
                   find (\<lambda>g'. appid g' = appid g)
                     (parseAppManifests exampleHost ((steamPath # rest) ! i)) = Some g
                 \<and> (\<forall>j < i. \<forall>g' \<in> set (parseAppManifests exampleHost ((steamPath # rest) ! j)).
                       appid g' \<noteq> appid g)))
         \<and> appid ` set (games ?info)
             = appid ` set (concat (map (parseAppManifests exampleHost) (steamPath # rest)))
         \<and> distinct (map appid (games ?info))"
    by (elim exE) (rule that)
  from all have p: "getSteamPath exampleHost = Inr (Some steamPath)"
    by (rule conjunct1)
  from all have l: "getSteamLibraryPaths exampleHost steamPath = steamPath # rest"
    by (elim conjE)
  from all have f: "\<forall>g \<in> set (games ?info).
               find (\<lambda>g'. appid g' = appid g)
                 (concat (map (parseAppManifests exampleHost) (steamPath # rest))) = Some g
             \<and> (\<exists>i < length (steamPath # rest).
                   find (\<lambda>g'. appid g' = appid g)
                     (parseAppManifests exampleHost ((steamPath # rest) ! i)) = Some g
                 \<and> (\<forall>j < i. \<forall>g' \<in> set (parseAppManifests exampleHost ((steamPath # rest) ! j)).
                       appid g' \<noteq> appid g))"
    by (elim conjE)
  from p have sp: "steamPath = ''C:/Steam''"
    unfolding example_steamPath by simp
  from l have r: "steamPath # rest = [''C:/Steam'', ''D:/Games'']"
    unfolding sp example_libraries by (rule sym)
  have m: "dotaBase \<in> set (games ?info)"
    by simp
  from bspec [OF f m]
  have "find (\<lambda>g'. appid g' = appid dotaBase)
        (concat (map (parseAppManifests exampleHost) (steamPath # rest))) = Some dotaBase"
    by (rule conjunct1)
  then have 1: "find (\<lambda>g'. appid g' = appid dotaBase)
        (concat (map (parseAppManifests exampleHost) [''C:/Steam'', ''D:/Games''])) = Some dotaBase"
    unfolding r .
  have 2: "appid dotaExtra = appid dotaBase \<and> dotaExtra \<noteq> dotaBase"
    using example_games(1,2,8) by simp
  show ?thesis
    using example_run example_libraries example_scans 2 1 by (intro conjI) simp_all
qed


text \<open>
  C7. No game with identifier 228980 or 7 is in the output of the scanner, and none is in
  the games of a result, whatever manifests exist.
\<close>

theorem reserved_never_listed:
  "(\<forall>g \<in> set (parseAppManifests h libraryPath). appid g \<noteq> 228980 \<and> appid g \<noteq> 7)
   \<and> (\<forall>info. getInstalledSteamGames h = Inr info
         \<longrightarrow> (\<forall>g \<in> set (games info). appid g \<noteq> 228980 \<and> appid g \<noteq> 7))"
proof (intro conjI allI impI ballI)
  fix g assume "g \<in> set (parseAppManifests h libraryPath)"
  then have "\<not> reserved (appid g)"
    by (rule parseAppManifests_not_reserved)
  then show "appid g \<noteq> 228980" "appid g \<noteq> 7"
    by (simp_all add: reserved_def)
next
  fix info g assume r: "getInstalledSteamGames h = Inr info" and g: "g \<in> set (games info)"
  from r obtain steamPath where
    "games info =
           sortBy (\<lambda>a b. localeCompare h (name a) (name b))
             (removeDuplicates
                (concat (map (parseAppManifests h) (getSteamLibraryPaths h steamPath))))"
    by (rule getInstalledSteamGames_Inr)
  with g have "g \<in> set (removeDuplicates
                (concat (map (parseAppManifests h) (getSteamLibraryPaths h steamPath))))"
    by (simp add: set_sortBy)
  then have "g \<in> set (concat (map (parseAppManifests h) (getSteamLibraryPaths h steamPath)))"
    using removeDuplicates_subset by blast
  then obtain lp where "g \<in> set (parseAppManifests h lp)"
    by auto
  then have "\<not> reserved (appid g)"
    by (rule parseAppManifests_not_reserved)
  then show "appid g \<noteq> 228980" "appid g \<noteq> 7"
    by (simp_all add: reserved_def)
qed

theorem reserved_never_listed_witness:
  "existsSync exampleHost ''C:/Steam/steamapps/appmanifest_7.acf''
   \<and> readFile exampleHost ''C:/Steam/steamapps/appmanifest_7.acf'' = Some manifestClient
   \<and> existsSync exampleHost ''D:/Games/steamapps/appmanifest_228980.acf''
   \<and> readFile exampleHost ''D:/Games/steamapps/appmanifest_228980.acf'' = Some manifestClient
   \<and> first_occurrence ''name'' not_quote manifestClient
       = Some ''Steamworks Common Redistributables''
   \<and> first_occurrence ''installdir'' not_quote manifestClient = Some ''Steamworks Shared''
   \<and> parseAppManifests exampleHost ''C:/Steam'' = [dotaBase]
   \<and> appid dotaBase \<noteq> 228980 \<and> appid dotaBase \<noteq> 7
   \<and> getInstalledSteamGames exampleHost =
       Inr \<lparr>games = [counterStrike, dotaBase], totalSize = 12000000000, gameCount = 2\<rparr>
   \<and> appid counterStrike \<noteq> 228980 \<and> appid counterStrike \<noteq> 7"
proof -
  let ?info = "\<lparr>games = [counterStrike, dotaBase], totalSize = 12000000000, gameCount = 2\<rparr>"
  have files: "existsSync exampleHost ''C:/Steam/steamapps/appmanifest_7.acf''
   \<and> readFile exampleHost ''C:/Steam/steamapps/appmanifest_7.acf'' = Some manifestClient
   \<and> existsSync exampleHost ''D:/Games/steamapps/appmanifest_228980.acf''
   \<and> readFile exampleHost ''D:/Games/steamapps/appmanifest_228980.acf'' = Some manifestClient"
    by (simp add: exampleHost_sel examplePaths_def exampleFiles_def)
  note inst = reserved_never_listed [of exampleHost "''C:/Steam''"]
  have m: "dotaBase \<in> set (parseAppManifests exampleHost ''C:/Steam'')"
    by (simp add: example_scans)
  from inst
  have "\<forall>g \<in> set (parseAppManifests exampleHost ''C:/Steam''). appid g \<noteq> 228980 \<and> appid g \<noteq> 7"
    by (rule conjunct1)
  from bspec [OF this m] have 1: "appid dotaBase \<noteq> 228980 \<and> appid dotaBase \<noteq> 7" .
  from inst
  have "\<forall>info. getInstalledSteamGames exampleHost = Inr info
         \<longrightarrow> (\<forall>g \<in> set (games info). appid g \<noteq> 228980 \<and> appid g \<noteq> 7)"
    by (rule conjunct2)
  then have all: "\<forall>g \<in> set (games ?info). appid g \<noteq> 228980 \<and> appid g \<noteq> 7"
    using example_run by (elim allE impE)
  have "counterStrike \<in> set (games ?info)"
    by simp
  from bspec [OF all this] have 2: "appid counterStrike \<noteq> 228980 \<and> appid counterStrike \<noteq> 7" .
  show ?thesis
    using files 1 2 example_scans(1) example_run manifestClient_fields
    by (intro conjI) simp_all
qed

text \<open>
  C2. \<open>getInstalledSteamGames\<close> fails in exactly two cases: with \<open>PlatformUnsupported\<close>
  on a platform other than \<open>win32\<close>, and with \<open>NotFound\<close> on \<open>win32\<close> when no registry
  key resolves. In every other case it returns a result, whatever the file system does:
  an unreadable \<open>libraryfolders.vdf\<close> leaves the base path as the only library, a
  missing or unreadable \<open>steamapps\<close> directory gives that library no games, and a
  manifest that is missing, unreadable or without a required field gives no game while
  the manifests before and after it are scanned as without it.
\<close>

theorem only_fatal_errors_propagate:
  "(getInstalledSteamGames h = Inl e \<longleftrightarrow>
      (platform h \<noteq> ''win32'' \<and> e = PlatformUnsupported)
      \<or> (platform h = ''win32'' \<and> (\<forall>key \<in> set registryPaths. \<not> resolves h key)
          \<and> e = NotFound))
   \<and> (platform h = ''win32'' \<and> (\<exists>key \<in> set registryPaths. resolves h key)
        \<longrightarrow> (\<exists>info. getInstalledSteamGames h = Inr info))
   \<and> (readFile h (join h [steamPath, ''steamapps'', ''libraryfolders.vdf'']) = None
        \<longrightarrow> getSteamLibraryPaths h steamPath = [steamPath])
   \<and> (\<not> existsSync h (join h [libraryPath, ''steamapps''])
        \<or> readdir h (join h [libraryPath, ''steamapps'']) = None
        \<longrightarrow> parseAppManifests h libraryPath = [])
   \<and> (\<not> existsSync h (join h [steamappsPath, manifestFile])
        \<or> readFile h (join h [steamappsPath, manifestFile]) = None
        \<or> (\<exists>content. readFile h (join h [steamappsPath, manifestFile]) = Some content
              \<and> (first_occurrence ''name'' not_quote content = None
                   \<or> first_occurrence ''installdir'' not_quote content = None))
        \<longrightarrow> parseManifest h libraryPath steamappsPath manifestFile = None)
   \<and> (parseManifest h libraryPath steamappsPath manifestFile = None
        \<longrightarrow> scanManifests h libraryPath steamappsPath (before @ manifestFile # after)
            = scanManifests h libraryPath steamappsPath before
              @ scanManifests h libraryPath steamappsPath after)"
proof (intro conjI impI)
  show "getInstalledSteamGames h = Inl e \<longleftrightarrow>
      (platform h \<noteq> ''win32'' \<and> e = PlatformUnsupported)
      \<or> (platform h = ''win32'' \<and> (\<forall>key \<in> set registryPaths. \<not> resolves h key)
          \<and> e = NotFound)"
    by (rule getInstalledSteamGames_Inl_iff)
next
  assume a: "platform h = ''win32'' \<and> (\<exists>key \<in> set registryPaths. resolves h key)"
  show "\<exists>info. getInstalledSteamGames h = Inr info"
  proof (cases "getInstalledSteamGames h")
    case (Inl e)
    then show ?thesis
      using a unfolding getInstalledSteamGames_Inl_iff by blast
  next
    case (Inr info)
    then show ?thesis by blast
  qed
next
  assume "readFile h (join h [steamPath, ''steamapps'', ''libraryfolders.vdf'']) = None"
  then show "getSteamLibraryPaths h steamPath = [steamPath]"
    by (rule getSteamLibraryPaths_unreadable)
next
  assume "\<not> existsSync h (join h [libraryPath, ''steamapps''])
        \<or> readdir h (join h [libraryPath, ''steamapps'']) = None"
  then show "parseAppManifests h libraryPath = []"
    by (rule parseAppManifests_unreadable)
next
  assume "\<not> existsSync h (join h [steamappsPath, manifestFile])
        \<or> readFile h (join h [steamappsPath, manifestFile]) = None
        \<or> (\<exists>content. readFile h (join h [steamappsPath, manifestFile]) = Some content
              \<and> (first_occurrence ''name'' not_quote content = None
                   \<or> first_occurrence ''installdir'' not_quote content = None))"
  then show "parseManifest h libraryPath steamappsPath manifestFile = None"
    unfolding parseManifest_eq by (auto split: option.splits)
next
  assume "parseManifest h libraryPath steamappsPath manifestFile = None"
  then show "scanManifests h libraryPath steamappsPath (before @ manifestFile # after)
            = scanManifests h libraryPath steamappsPath before
              @ scanManifests h libraryPath steamappsPath after"
    by (simp add: scanManifests_append)
qed

theorem only_fatal_errors_propagate_witness:
  "getInstalledSteamGames (exampleHost\<lparr>platform := ''linux''\<rparr>) = Inl PlatformUnsupported
   \<and> getInstalledSteamGames (exampleHost\<lparr>execAsync := \<lambda>key. None\<rparr>) = Inl NotFound
   \<and> (\<exists>info. getInstalledSteamGames (exampleHost\<lparr>readFile := \<lambda>p. None\<rparr>) = Inr info)
   \<and> getSteamLibraryPaths (exampleHost\<lparr>readFile := \<lambda>p. None\<rparr>) ''C:/Steam'' = [''C:/Steam'']
   \<and> parseAppManifests exampleHost ''E:/Nothing'' = []
   \<and> readFile exampleHost (join exampleHost [''C:/Steam/steamapps'', ''appmanifest_730.acf''])
       = None
   \<and> parseManifest exampleHost ''C:/Steam'' ''C:/Steam/steamapps'' ''appmanifest_730.acf'' = None
   \<and> scanManifests exampleHost ''C:/Steam'' ''C:/Steam/steamapps''
        ([''appmanifest_570.acf''] @ ''appmanifest_730.acf'' # [''appmanifest_440.acf''])
       = scanManifests exampleHost ''C:/Steam'' ''C:/Steam/steamapps'' [''appmanifest_570.acf'']
         @ scanManifests exampleHost ''C:/Steam'' ''C:/Steam/steamapps'' [''appmanifest_440.acf'']"
proof -
  let ?linux = "exampleHost\<lparr>platform := ''linux''\<rparr>"
  let ?noReg = "exampleHost\<lparr>execAsync := \<lambda>key. None\<rparr>"
  let ?noRead = "exampleHost\<lparr>readFile := \<lambda>p. None\<rparr>"
  have "platform ?linux \<noteq> ''win32''"
    by simp
  then have 1: "getInstalledSteamGames ?linux = Inl PlatformUnsupported"
    using only_fatal_errors_propagate [of ?linux PlatformUnsupported, THEN conjunct1]
    by (simp only: simp_thms)
  have a: "platform ?noReg = ''win32''"
    by (simp add: exampleHost_sel)
  have b: "\<forall>key \<in> set registryPaths. \<not> resolves ?noReg key"
    by (simp add: resolves_def)
  have 2: "getInstalledSteamGames ?noReg = Inl NotFound"
    by (rule only_fatal_errors_propagate [of ?noReg NotFound, THEN conjunct1, THEN iffD2])
       (intro disjI2 conjI a b refl)
  have "resolves ?noRead keyNative" "keyNative \<in> set registryPaths"
    by (simp_all add: resolves_def exampleHost_sel example_registry example_trim examplePaths_def
        registryPaths_def)
  then have "platform ?noRead = ''win32'' \<and> (\<exists>key \<in> set registryPaths. resolves ?noRead key)"
    by (auto simp: exampleHost_sel)
  then have 3: "\<exists>info. getInstalledSteamGames ?noRead = Inr info"
    by (rule only_fatal_errors_propagate [of ?noRead, THEN conjunct2, THEN conjunct1, THEN mp])
  have "readFile ?noRead (join ?noRead [''C:/Steam'', ''steamapps'', ''libraryfolders.vdf'']) = None"
    by simp
  then have 4: "getSteamLibraryPaths ?noRead ''C:/Steam'' = [''C:/Steam'']"
    by (rule only_fatal_errors_propagate
          [of ?noRead, THEN conjunct2, THEN conjunct2, THEN conjunct1, THEN mp])
  have "\<not> existsSync exampleHost (join exampleHost [''E:/Nothing'', ''steamapps''])
        \<or> readdir exampleHost (join exampleHost [''E:/Nothing'', ''steamapps'']) = None"
    by (simp add: exampleHost_sel examplePaths_def)
  then have 5: "parseAppManifests exampleHost ''E:/Nothing'' = []"
    by (rule only_fatal_errors_propagate
          [of exampleHost, THEN conjunct2, THEN conjunct2, THEN conjunct2, THEN conjunct1, THEN mp])
  have 6: "readFile exampleHost (join exampleHost [''C:/Steam/steamapps'', ''appmanifest_730.acf''])
       = None"
    by (simp add: exampleHost_sel exampleFiles_def)
  then have 7: "parseManifest exampleHost ''C:/Steam'' ''C:/Steam/steamapps''
                  ''appmanifest_730.acf'' = None"
    using only_fatal_errors_propagate
          [where h = exampleHost and libraryPath = "''C:/Steam''"
             and steamappsPath = "''C:/Steam/steamapps''"
             and manifestFile = "''appmanifest_730.acf''",
           THEN conjunct2, THEN conjunct2, THEN conjunct2, THEN conjunct2, THEN conjunct1]
    by (simp only: simp_thms)
  then have 8: "scanManifests exampleHost ''C:/Steam'' ''C:/Steam/steamapps''
        ([''appmanifest_570.acf''] @ ''appmanifest_730.acf'' # [''appmanifest_440.acf''])
       = scanManifests exampleHost ''C:/Steam'' ''C:/Steam/steamapps'' [''appmanifest_570.acf'']
         @ scanManifests exampleHost ''C:/Steam'' ''C:/Steam/steamapps'' [''appmanifest_440.acf'']"
    by (rule only_fatal_errors_propagate
          [of exampleHost, THEN conjunct2, THEN conjunct2, THEN conjunct2, THEN conjunct2,
           THEN conjunct2, THEN mp])
  from 1 2 3 4 5 6 7 8 show ?thesis
    by (intro conjI)
qed

end
